theory Spec2Isabelle
  imports Complex_Main "HOL-Library.Word" "HOL-Library.Monad_Syntax"
begin

unbundle bit_operations_syntax

section \<open>Python values, exceptions and handler results\<close>

text \<open>
  The handlers of \<^verbatim>\<open>app.py\<close> build Python dictionaries and lists and hand them to
  \<^verbatim>\<open>jsonify\<close> together with a status code. A handler result is modelled as the Python
  value given to \<^verbatim>\<open>jsonify\<close> and the status, or as the exception that leaves the handler.
  The type \<open>'f\<close> is the carrier of floating-point numbers, \<open>'d\<close> the one of datetimes.
\<close>

datatype ('f, 'd) pyval =
    PNone
  | PBool bool
  | PInt int
  | PFloat 'f
  | PDecimal rat
  | PStr string
  | PDatetime 'd
  | PList "('f, 'd) pyval list"
  | PDict "(string \<times> ('f, 'd) pyval) list"

datatype exn =
    KeyError string
  | TypeError string
  | ValueError string
  | ClientError string

text \<open>\<^verbatim>\<open>str(e)\<close>: a \<^verbatim>\<open>KeyError\<close> prints the repr of its key, the others their message.\<close>

fun str_exn :: "exn \<Rightarrow> string" where
  "str_exn (KeyError k) = [CHR 0x27] @ k @ [CHR 0x27]"
| "str_exn (TypeError m) = m"
| "str_exn (ValueError m) = m"
| "str_exn (ClientError m) = m"

datatype ('f, 'd) outcome =
    Response "('f, 'd) pyval" nat
  | Unhandled exn

fun status_of :: "('f, 'd) outcome \<Rightarrow> nat option" where
  "status_of (Response b s) = Some s"
| "status_of (Unhandled e) = None"

text \<open>A JSON error envelope is a dictionary with the single key \<^verbatim>\<open>error\<close> and a string.\<close>

fun is_error_envelope :: "('f, 'd) pyval \<Rightarrow> bool" where
  "is_error_envelope (PDict [(k, PStr m)]) = (k = ''error'')"
| "is_error_envelope _ = False"

text \<open>Subscripting \<^verbatim>\<open>data['s3_key']\<close> with a string key, as Python does it on each kind of value.\<close>

fun getitem :: "('f, 'd) pyval \<Rightarrow> string \<Rightarrow> exn + ('f, 'd) pyval" where
  "getitem (PDict kvs) k = (case map_of kvs k of None \<Rightarrow> Inl (KeyError k) | Some v \<Rightarrow> Inr v)"
| "getitem (PList xs) k = Inl (TypeError ''list indices must be integers or slices, not str'')"
| "getitem (PStr s) k = Inl (TypeError ''string indices must be integers'')"
| "getitem _ k = Inl (TypeError ''object is not subscriptable'')"

section \<open>UUIDs\<close>

text \<open>
  \<^verbatim>\<open>uuid4()\<close> takes 16 random bytes and overwrites the variant and version bits;
  \<^verbatim>\<open>str\<close> of a UUID prints the 128 bits as 32 lower-case hexadecimal digits in groups
  of 8-4-4-4-12.
\<close>

type_synonym uuid = "128 word"

definition uuid4_of :: "128 word \<Rightarrow> uuid" where
  "uuid4_of r =
     (((r AND NOT (push_bit 48 0xc000)) OR push_bit 48 0x8000)
        AND NOT (push_bit 64 0xf000)) OR push_bit 76 4"

definition hexchar :: "nat \<Rightarrow> char" where
  "hexchar d = ''0123456789abcdef'' ! d"

fun hex_digits :: "nat \<Rightarrow> nat \<Rightarrow> string" where
  "hex_digits 0 n = []"
| "hex_digits (Suc k) n = hex_digits k (n div 16) @ [hexchar (n mod 16)]"

definition str_uuid :: "uuid \<Rightarrow> string" where
  "str_uuid u =
     (let hex = hex_digits 32 (unat u)
      in take 8 hex @ ''-'' @ take 4 (drop 8 hex) @ ''-'' @ take 4 (drop 12 hex) @ ''-''
         @ take 4 (drop 16 hex) @ ''-'' @ drop 20 hex)"

section \<open>The object store, the queue and the process environment\<close>

record send_request =
  QueueUrl :: "string option"
  MessageBody :: string
  MessageGroupId :: string
  MessageDeduplicationId :: string

record file_storage =
  filename :: string
  stream :: string

text \<open>
  Every call to a client is recorded with its arguments and its result: the error raised,
  or success (\<open>None\<close> for the store, the message id for the queue).
\<close>

datatype event =
    S3_upload_fileobj "string option" string string "exn option"
  | SQS_send_message send_request "exn + string"

text \<open>
  The environment holds what the module reads at import time and the behaviour of the
  collaborators that are not part of the repository: the random source behind
  \<^verbatim>\<open>uuid4\<close>, werkzeug's \<^verbatim>\<open>secure_filename\<close>, the text \<^verbatim>\<open>jsonify\<close> produces, and the
  answers of the object store and of the queue, which may depend on all earlier calls.
\<close>

record ('f, 'd) env =
  S3_BUCKET :: "string option"
  SQS_QUEUE_URL :: "string option"
  urandom16 :: "nat \<Rightarrow> 128 word"
  secure_filename :: "string \<Rightarrow> string"
  jsonify_text :: "('f, 'd) pyval \<Rightarrow> string"
  s3_answer :: "event list \<Rightarrow> string option \<Rightarrow> string \<Rightarrow> string \<Rightarrow> exn option"
  sqs_answer :: "event list \<Rightarrow> send_request \<Rightarrow> exn + string"

text \<open>
  The world is what the handlers change: the number of random draws taken so far, the
  objects in the store, and the trace of client calls (oldest first).
\<close>

record world =
  uuid_calls :: nat
  objects :: "(string option \<times> string) \<Rightarrow> string option"
  trace :: "event list"

definition uuid4 :: "('f, 'd) env \<Rightarrow> world \<Rightarrow> uuid \<times> world" where
  "uuid4 E w = (uuid4_of (urandom16 E (uuid_calls w)), w\<lparr>uuid_calls := Suc (uuid_calls w)\<rparr>)"

definition s3_upload_fileobj ::
  "('f, 'd) env \<Rightarrow> world \<Rightarrow> file_storage \<Rightarrow> string option \<Rightarrow> string \<Rightarrow> exn option \<times> world" where
  "s3_upload_fileobj E w file bucket key =
     (let r = s3_answer E (trace w) bucket key (stream file);
          w' = w\<lparr>trace := trace w @ [S3_upload_fileobj bucket key (stream file) r]\<rparr>
      in case r of
           Some e \<Rightarrow> (Some e, w')
         | None \<Rightarrow> (None, w'\<lparr>objects := (objects w')((bucket, key) \<mapsto> stream file)\<rparr>))"

definition sqs_send_message :: "('f, 'd) env \<Rightarrow> world \<Rightarrow> send_request \<Rightarrow> (exn + string) \<times> world" where
  "sqs_send_message E w rq =
     (let r = sqs_answer E (trace w) rq
      in (r, w\<lparr>trace := trace w @ [SQS_send_message rq r]\<rparr>))"

fun opt_str :: "string option \<Rightarrow> ('f, 'd) pyval" where
  "opt_str None = PNone"
| "opt_str (Some s) = PStr s"

section \<open>The upload handler\<close>

record upload_request =
  files :: "(string \<times> file_storage) list"

definition upload_file :: "('f, 'd) env \<Rightarrow> world \<Rightarrow> upload_request \<Rightarrow> ('f, 'd) outcome \<times> world" where
  "upload_file E w request =
     (case map_of (files request) ''file'' of
        None \<Rightarrow> (Response (PDict [(''error'', PStr ''No file part in the request'')]) 400, w)
      | Some file \<Rightarrow>
          if filename file = '''' then
            (Response (PDict [(''error'', PStr ''No file selected'')]) 400, w)
          else
            let original_filename = secure_filename E (filename file);
                (u, w1) = uuid4 E w;
                unique_filename = str_uuid u @ ''_'' @ original_filename;
                (r, w2) = s3_upload_fileobj E w1 file (S3_BUCKET E) unique_filename
            in case r of
                 Some e \<Rightarrow> (Response (PDict [(''error'', PStr (str_exn e))]) 500, w2)
               | None \<Rightarrow>
                   let sqs_message = PDict [(''s3_key'', PStr unique_filename),
                                            (''bucket_name'', opt_str (S3_BUCKET E)),
                                            (''MessageGroupId'', PStr ''ETL_JOB'')];
                       (d, w3) = uuid4 E w2;
                       (sqs_response, w4) = sqs_send_message E w3
                          \<lparr>QueueUrl = SQS_QUEUE_URL E,
                           MessageBody = jsonify_text E sqs_message,
                           MessageGroupId = ''etl-job'',
                           MessageDeduplicationId = str_uuid d\<rparr>
                   in case sqs_response of
                        Inl e \<Rightarrow> (Response (PDict [(''error'', PStr (str_exn e))]) 500, w4)
                      | Inr message_id \<Rightarrow>
                          (Response (PDict
                             [(''message'', PStr ''File uploaded and ETL job queued successfully!''),
                              (''s3_key'', PStr unique_filename),
                              (''sqs_message_id'', PStr message_id)]) 200, w4))"

section \<open>The trigger handler\<close>

record ('f, 'd) trigger_request =
  json :: "('f, 'd) pyval"

definition trigger_job ::
  "('f, 'd) env \<Rightarrow> world \<Rightarrow> ('f, 'd) trigger_request \<Rightarrow> ('f, 'd) outcome \<times> world" where
  "trigger_job E w request =
     (let data = json request
      in case getitem data ''s3_key'' of
           Inl e \<Rightarrow> (Unhandled e, w)
         | Inr s3_key \<Rightarrow>
             let sqs_message = PDict [(''s3_key'', s3_key),
                                      (''bucket_name'', opt_str (S3_BUCKET E)),
                                      (''MessageGroupId'', PStr ''ETL_JOB'')];
                 (d, w1) = uuid4 E w;
                 (sqs_response, w2) = sqs_send_message E w1
                    \<lparr>QueueUrl = SQS_QUEUE_URL E,
                     MessageBody = jsonify_text E sqs_message,
                     MessageGroupId = ''etl-job'',
                     MessageDeduplicationId = str_uuid d\<rparr>
             in case sqs_response of
                  Inl e \<Rightarrow> (Response (PDict [(''error'', PStr (str_exn e))]) 500, w2)
                | Inr message_id \<Rightarrow>
                    (Response (PDict
                       [(''message'', PStr ''ETL job queued successfully!''),
                        (''s3_key'', s3_key),
                        (''sqs_message_id'', PStr message_id)]) 200, w2))"

text \<open>Reading a trace: the requests handed to the queue, in order.\<close>

fun sqs_sends :: "event list \<Rightarrow> send_request list" where
  "sqs_sends [] = []"
| "sqs_sends (SQS_send_message rq r # es) = rq # sqs_sends es"
| "sqs_sends (_ # es) = sqs_sends es"

section \<open>Names for the pieces of a request's run\<close>

text \<open>
  The storage key of an upload started in world \<open>w\<close>, the job message both handlers
  build for a key, the queue request made with the \<open>n\<close>-th random draw as deduplication
  token, and the store call of an upload with its result.
\<close>

definition upload_key :: "('f, 'd) env \<Rightarrow> world \<Rightarrow> file_storage \<Rightarrow> string" where
  "upload_key E w file =
     str_uuid (uuid4_of (urandom16 E (uuid_calls w))) @ ''_'' @ secure_filename E (filename file)"

definition job_message :: "('f, 'd) env \<Rightarrow> ('f, 'd) pyval \<Rightarrow> ('f, 'd) pyval" where
  "job_message E k = PDict [(''s3_key'', k), (''bucket_name'', opt_str (S3_BUCKET E)),
                             (''MessageGroupId'', PStr ''ETL_JOB'')]"

definition job_request :: "('f, 'd) env \<Rightarrow> nat \<Rightarrow> ('f, 'd) pyval \<Rightarrow> send_request" where
  "job_request E n k =
     \<lparr>QueueUrl = SQS_QUEUE_URL E, MessageBody = jsonify_text E (job_message E k),
      MessageGroupId = ''etl-job'',
      MessageDeduplicationId = str_uuid (uuid4_of (urandom16 E n))\<rparr>"

definition put_event :: "('f, 'd) env \<Rightarrow> world \<Rightarrow> file_storage \<Rightarrow> exn option \<Rightarrow> event" where
  "put_event E w file r = S3_upload_fileobj (S3_BUCKET E) (upload_key E w file) (stream file) r"

definition new_events :: "world \<Rightarrow> world \<Rightarrow> event list" where
  "new_events w w' = drop (length (trace w)) (trace w')"


section \<open>Example environments\<close>

text \<open>
  An example: the random source counts its draws, the sanitizer writes an underscore for
  a path separator (as werkzeug does for \<^verbatim>\<open>a/trips.csv\<close>), the store accepts every
  object, and the queue names a message after its deduplication token. In the variants
  the store or the queue refuses every call.
\<close>

definition example_env :: "(int, nat) env" where
  "example_env =
     \<lparr>S3_BUCKET = Some ''etl-bucket'', SQS_QUEUE_URL = Some ''https://sqs/etl.fifo'',
      urandom16 = of_nat,
      secure_filename = map (\<lambda>c. if c = CHR ''/'' then CHR ''_'' else c),
      jsonify_text = (\<lambda>v. case v of PDict ((k, PStr s) # _) \<Rightarrow> s | _ \<Rightarrow> ''null''),
      s3_answer = (\<lambda>h b k p. None),
      sqs_answer = (\<lambda>h rq. Inr (MessageDeduplicationId rq))\<rparr>"

definition store_down_env :: "(int, nat) env" where
  "store_down_env = example_env\<lparr>s3_answer := (\<lambda>h b k p. Some (ClientError ''AccessDenied''))\<rparr>"

definition queue_down_env :: "(int, nat) env" where
  "queue_down_env = example_env\<lparr>sqs_answer := (\<lambda>h rq. Inl (ClientError ''QueueDoesNotExist''))\<rparr>"


definition empty_world :: world where
  "empty_world = \<lparr>uuid_calls = 0, objects = Map.empty, trace = []\<rparr>"

definition example_file :: file_storage where
  "example_file = \<lparr>filename = ''a/trips.csv'', stream = ''id,vendor''\<rparr>"

definition example_upload :: upload_request where
  "example_upload = \<lparr>files = [(''file'', example_file)]\<rparr>"

section \<open>The trips table and the query service\<close>

text \<open>
  A row of the \<^verbatim>\<open>trips\<close> table of \<^verbatim>\<open>models.py\<close>. Every column but the primary key
  is nullable.
\<close>

record ('f, 'd) trip =
  trip_id :: string
  vendor_id :: "int option"
  pickup_datetime :: "'d option"
  dropoff_datetime :: "'d option"
  passenger_count :: "int option"
  pickup_longitude :: "'f option"
  pickup_latitude :: "'f option"
  dropoff_longitude :: "'f option"
  dropoff_latitude :: "'f option"
  store_and_fwd_flag :: "string option"
  trip_duration :: "int option"
  trip_distance :: "'f option"

fun opt_val :: "('a \<Rightarrow> ('f, 'd) pyval) \<Rightarrow> 'a option \<Rightarrow> ('f, 'd) pyval" where
  "opt_val c None = PNone"
| "opt_val c (Some x) = c x"

definition to_dict :: "('f, 'd) trip \<Rightarrow> ('f, 'd) pyval" where
  "to_dict t = PDict
     [(''id'', PStr (trip_id t)),
      (''vendor_id'', opt_val PInt (vendor_id t)),
      (''pickup_datetime'', opt_val PDatetime (pickup_datetime t)),
      (''dropoff_datetime'', opt_val PDatetime (dropoff_datetime t)),
      (''passenger_count'', opt_val PInt (passenger_count t)),
      (''pickup_longitude'', opt_val PFloat (pickup_longitude t)),
      (''pickup_latitude'', opt_val PFloat (pickup_latitude t)),
      (''dropoff_longitude'', opt_val PFloat (dropoff_longitude t)),
      (''dropoff_latitude'', opt_val PFloat (dropoff_latitude t)),
      (''store_and_fwd_flag'', opt_val PStr (store_and_fwd_flag t)),
      (''trip_duration'', opt_val PInt (trip_duration t)),
      (''trip_distance'', opt_val PFloat (trip_distance t))]"

text \<open>
  The database session and the parts of Python and of the SQL engine the queries rely
  on: the rows of the table in the order the engine scans them, a fault of the session
  (every query then raises it), Python's \<^verbatim>\<open>float\<close>, the engine's equality on floats, its
  cast of a text literal to a timestamp, its order on timestamps, \<^verbatim>\<open>date_trunc('day', _)\<close>
  and Python's \<^verbatim>\<open>str\<close> on a datetime.
\<close>

record ('f, 'd) database =
  trips :: "('f, 'd) trip list"
  db_fault :: "exn option"
  py_float :: "string \<Rightarrow> exn + 'f"
  float_eq :: "'f \<Rightarrow> 'f \<Rightarrow> bool"
  cast_timestamp :: "string \<Rightarrow> exn + 'd"
  timestamp_le :: "'d \<Rightarrow> 'd \<Rightarrow> bool"
  date_trunc_day :: "'d \<Rightarrow> 'd"
  str_datetime :: "'d \<Rightarrow> string"

text \<open>The filters the two query builders add with \<^verbatim>\<open>query.filter\<close>.\<close>

datatype ('f, 'd) criterion =
    Pickup_between_text string string
  | Pickup_between 'd 'd
  | Pickup_longitude_eq 'f
  | Pickup_latitude_eq 'f
  | Vendor_id_eq int

text \<open>
  A comparison with a NULL column is not true, so the row is dropped. A text bound that
  the engine cannot cast makes the whole statement fail.
\<close>

fun compile :: "('f, 'd) database \<Rightarrow> ('f, 'd) criterion \<Rightarrow> exn + (('f, 'd) trip \<Rightarrow> bool)" where
  "compile D (Pickup_between_text a b) =
     (case cast_timestamp D a of
        Inl e \<Rightarrow> Inl e
      | Inr lo \<Rightarrow>
          (case cast_timestamp D b of
             Inl e \<Rightarrow> Inl e
           | Inr hi \<Rightarrow> Inr (\<lambda>t. case pickup_datetime t of None \<Rightarrow> False
                                 | Some d \<Rightarrow> timestamp_le D lo d \<and> timestamp_le D d hi)))"
| "compile D (Pickup_between lo hi) =
     Inr (\<lambda>t. case pickup_datetime t of None \<Rightarrow> False
              | Some d \<Rightarrow> timestamp_le D lo d \<and> timestamp_le D d hi)"
| "compile D (Pickup_longitude_eq x) =
     Inr (\<lambda>t. case pickup_longitude t of None \<Rightarrow> False | Some v \<Rightarrow> float_eq D v x)"
| "compile D (Pickup_latitude_eq x) =
     Inr (\<lambda>t. case pickup_latitude t of None \<Rightarrow> False | Some v \<Rightarrow> float_eq D v x)"
| "compile D (Vendor_id_eq n) =
     Inr (\<lambda>t. case vendor_id t of None \<Rightarrow> False | Some v \<Rightarrow> v = n)"

fun compile_all ::
  "('f, 'd) database \<Rightarrow> ('f, 'd) criterion list \<Rightarrow> exn + (('f, 'd) trip \<Rightarrow> bool) list" where
  "compile_all D [] = Inr []"
| "compile_all D (c # cs) =
     (case compile D c of
        Inl e \<Rightarrow> Inl e
      | Inr p \<Rightarrow> (case compile_all D cs of Inl e \<Rightarrow> Inl e | Inr ps \<Rightarrow> Inr (p # ps)))"

text \<open>\<^verbatim>\<open>query.limit(n).offset(m).all()\<close>: the engine skips \<open>m\<close> rows, then returns at most \<open>n\<close>;
  \<^verbatim>\<open>None\<close> leaves the clause out; the engine rejects a negative number.\<close>

definition apply_offset :: "int option \<Rightarrow> 'a list \<Rightarrow> exn + 'a list" where
  "apply_offset offset rows =
     (case offset of
        None \<Rightarrow> Inr rows
      | Some m \<Rightarrow> if m < 0 then Inl (ClientError ''OFFSET must not be negative'')
                  else Inr (drop (nat m) rows))"

definition apply_limit :: "int option \<Rightarrow> 'a list \<Rightarrow> exn + 'a list" where
  "apply_limit limit rows =
     (case limit of
        None \<Rightarrow> Inr rows
      | Some n \<Rightarrow> if n < 0 then Inl (ClientError ''LIMIT must not be negative'')
                  else Inr (take (nat n) rows))"

definition query_all ::
  "('f, 'd) database \<Rightarrow> ('f, 'd) criterion list \<Rightarrow> int option \<Rightarrow> int option
     \<Rightarrow> exn + ('f, 'd) trip list" where
  "query_all D query limit offset =
     (case db_fault D of
        Some e \<Rightarrow> Inl e
      | None \<Rightarrow>
          (case compile_all D query of
             Inl e \<Rightarrow> Inl e
           | Inr ps \<Rightarrow>
               (case apply_offset offset [t \<leftarrow> trips D. list_all (\<lambda>p. p t) ps] of
                  Inl e \<Rightarrow> Inl e
                | Inr rows \<Rightarrow> apply_limit limit rows)))"

text \<open>Truth value of an optional query-string argument: absent and empty are both false.\<close>

fun truthy :: "string option \<Rightarrow> bool" where
  "truthy None = False"
| "truthy (Some s) = (s \<noteq> [])"

definition trips_query ::
  "('f, 'd) database \<Rightarrow> (string \<times> string) list \<Rightarrow> exn + ('f, 'd) trip list" where
  "trips_query D args =
     (let start_date = map_of args ''start_date'';
          end_date = map_of args ''end_date'';
          pickup_long = map_of args ''pickup_long'';
          pickup_lat = map_of args ''pickup_lat'';
          query = [];
          query = (if truthy start_date \<and> truthy end_date
                   then query @ [Pickup_between_text (the start_date) (the end_date)] else query)
      in case (if truthy pickup_long
               then (case py_float D (the pickup_long) of
                       Inl e \<Rightarrow> Inl e | Inr x \<Rightarrow> Inr (query @ [Pickup_longitude_eq x]))
               else Inr query) of
           Inl e \<Rightarrow> Inl e
         | Inr query \<Rightarrow>
             (case (if truthy pickup_lat
                    then (case py_float D (the pickup_lat) of
                            Inl e \<Rightarrow> Inl e | Inr x \<Rightarrow> Inr (query @ [Pickup_latitude_eq x]))
                    else Inr query) of
                Inl e \<Rightarrow> Inl e
              | Inr query \<Rightarrow> query_all D query None None))"

text \<open>The handler: the body of the \<^verbatim>\<open>try\<close> block is \<open>trips_query\<close> followed by the
  serialization; any exception becomes a response with status 500.\<close>

definition get_trips :: "('f, 'd) database \<Rightarrow> (string \<times> string) list \<Rightarrow> ('f, 'd) outcome" where
  "get_trips D args =
     (case trips_query D args of
        Inl e \<Rightarrow> Response (PDict [(''error'', PStr (str_exn e))]) 500
      | Inr rows \<Rightarrow> Response (PList (map to_dict rows)) 200)"

text \<open>The three aggregations of \<^verbatim>\<open>get_trip_stats\<close>.\<close>

definition avg_trip_duration :: "('f, 'd) trip list \<Rightarrow> rat option" where
  "avg_trip_duration rows =
     (let xs = [x. Some x \<leftarrow> map trip_duration rows]
      in if xs = [] then None else Some (of_int (sum_list xs) / of_nat (length xs)))"

definition pickup_day :: "('f, 'd) database \<Rightarrow> ('f, 'd) trip \<Rightarrow> 'd option" where
  "pickup_day D t = map_option (date_trunc_day D) (pickup_datetime t)"

definition trips_per_day_rows :: "('f, 'd) database \<Rightarrow> ('f, 'd) trip list \<Rightarrow> ('d option \<times> nat) list" where
  "trips_per_day_rows D rows =
     map (\<lambda>day. (day, length [t \<leftarrow> rows. pickup_day D t = day]))
         (remdups (map (pickup_day D) rows))"

definition count_distinct_days :: "('f, 'd) database \<Rightarrow> ('f, 'd) trip list \<Rightarrow> nat" where
  "count_distinct_days D rows = length (remdups [d. Some d \<leftarrow> map (pickup_day D) rows])"

fun str_day :: "('f, 'd) database \<Rightarrow> 'd option \<Rightarrow> string" where
  "str_day D None = ''None''"
| "str_day D (Some d) = str_datetime D d"

definition get_trip_stats :: "('f, 'd) database \<Rightarrow> ('f, 'd) outcome" where
  "get_trip_stats D =
     (case db_fault D of
        Some e \<Rightarrow> Response (PDict [(''error'', PStr (str_exn e))]) 500
      | None \<Rightarrow>
          let avg_duration = avg_trip_duration (trips D);
              trips_per_day = trips_per_day_rows D (trips D);
              total_days = count_distinct_days D (trips D);
              stats = PDict
                [(''average_trip_duration'', opt_val PDecimal avg_duration),
                 (''total_days'', PInt (int total_days)),
                 (''trips_per_day'',
                    PList (map (\<lambda>(day, total). PDict [(''date'', PStr (str_day D day)),
                                                       (''total_trips'', PInt (int total))])
                               trips_per_day))]
          in Response stats 200)"

text \<open>The GraphQL resolver \<^verbatim>\<open>resolve_all_trips\<close>. A number is true when it is not zero; a
  datetime is always true.\<close>

definition resolve_all_trips ::
  "('f, 'd) database \<Rightarrow> int option \<Rightarrow> int option \<Rightarrow> int option \<Rightarrow> 'd option \<Rightarrow> 'd option
     \<Rightarrow> exn + ('f, 'd) trip list" where
  "resolve_all_trips D limit offset vendor start_date end_date =
     (let query = [];
          query = (if vendor \<noteq> None \<and> vendor \<noteq> Some 0
                   then query @ [Vendor_id_eq (the vendor)] else query);
          query = (if start_date \<noteq> None \<and> end_date \<noteq> None
                   then query @ [Pickup_between (the start_date) (the end_date)] else query)
      in query_all D query limit offset)"


definition empty_database :: "(int, nat) database" where
  "empty_database =
     \<lparr>trips = [], db_fault = None,
      py_float = (\<lambda>s. if s = ''1'' then Inr 1 else if s = ''2'' then Inr 2
                       else Inl (ValueError ''could not convert string to float'')),
      float_eq = (=),
      cast_timestamp = (\<lambda>s. if s = ''d5'' then Inr 5 else if s = ''d9'' then Inr 9
                       else Inl (ClientError ''invalid input syntax for type timestamp'')),
      timestamp_le = (\<le>),
      date_trunc_day = (\<lambda>d. d - d mod 10),
      str_datetime = (\<lambda>d. ''day'')\<rparr>"

definition example_trip :: "string \<Rightarrow> int \<Rightarrow> nat \<Rightarrow> int \<Rightarrow> int \<Rightarrow> (int, nat) trip" where
  "example_trip i v d lon lat =
     \<lparr>trip_id = i, vendor_id = Some v, pickup_datetime = Some d, dropoff_datetime = None,
      passenger_count = Some 1, pickup_longitude = Some lon, pickup_latitude = Some lat,
      dropoff_longitude = None, dropoff_latitude = None, store_and_fwd_flag = None,
      trip_duration = Some 60, trip_distance = None\<rparr>"

definition example_database :: "(int, nat) database" where
  "example_database = empty_database
     \<lparr>trips := [example_trip ''a'' 1 4 1 2, example_trip ''b'' 2 7 1 1, example_trip ''c'' 0 12 2 2]\<rparr>"

definition only_start_args :: "(string \<times> string) list" where
  "only_start_args = [(''pickup_long'', ''1''), (''start_date'', ''d5'')]"

definition range_args :: "(string \<times> string) list" where
  "range_args = [(''start_date'', ''d5''), (''end_date'', ''d9''), (''pickup_lat'', ''1'')]"

section \<open>The DateTime scalar\<close>

text \<open>
  A datetime: the calendar and clock fields, and for an aware value the offset from UTC
  that \<^verbatim>\<open>utcoffset()\<close> returns, in microseconds (\<open>None\<close> for a naive datetime, as the
  \<^verbatim>\<open>DateTime\<close> columns of the table hold them).
\<close>

record datetime =
  year :: nat
  month :: nat
  day :: nat
  hour :: nat
  minute :: nat
  second :: nat
  microsecond :: nat
  utcoffset :: "int option"

definition is_leap :: "nat \<Rightarrow> bool" where
  "is_leap y = (y mod 4 = 0 \<and> (0 < y mod 100 \<or> y mod 400 = 0))"

definition days_in_month :: "nat \<Rightarrow> nat \<Rightarrow> nat" where
  "days_in_month y m =
     (if m = 2 then (if is_leap y then 29 else 28)
      else if m = 4 \<or> m = 6 \<or> m = 9 \<or> m = 11 then 30 else 31)"

text \<open>
  The values the constructor of \<^verbatim>\<open>datetime\<close> accepts; an offset lies strictly between
  minus and plus 24 hours.
\<close>

definition valid_datetime :: "datetime \<Rightarrow> bool" where
  "valid_datetime d =
     (1 \<le> year d \<and> year d \<le> 9999 \<and> 1 \<le> month d \<and> month d \<le> 12 \<and>
      1 \<le> day d \<and> day d \<le> days_in_month (year d) (month d) \<and>
      hour d < 24 \<and> minute d < 60 \<and> second d < 60 \<and> microsecond d < 1000000 \<and>
      (case utcoffset d of
         None \<Rightarrow> True
       | Some off \<Rightarrow> - 86400000000 < off \<and> off < 86400000000))"

definition digit_char :: "nat \<Rightarrow> char" where
  "digit_char v = char_of (48 + v)"

definition digit_val :: "char \<Rightarrow> nat option" where
  "digit_val c =
     (let i = (of_char c :: nat) in if 48 \<le> i \<and> i \<le> 57 then Some (i - 48) else None)"

text \<open>The decimal digits of \<open>n\<close> in a field of width \<open>k\<close>, padded with zeros.\<close>

fun zfill :: "nat \<Rightarrow> nat \<Rightarrow> string" where
  "zfill 0 n = []"
| "zfill (Suc k) n = zfill k (n div 10) @ [digit_char (n mod 10)]"

text \<open>The number written by a string of digits, read from its last digit.\<close>

fun read_rev :: "string \<Rightarrow> nat option" where
  "read_rev [] = Some 0"
| "read_rev (c # cs) =
     (case digit_val c of
        None \<Rightarrow> None
      | Some v \<Rightarrow> (case read_rev cs of None \<Rightarrow> None | Some n \<Rightarrow> Some (10 * n + v)))"

text \<open>Reading a field of exactly \<open>k\<close> digits, and a given character, off the front.\<close>

definition digits :: "nat \<Rightarrow> string \<Rightarrow> (nat \<times> string) option" where
  "digits k s =
     (if length s < k then None
      else map_option (\<lambda>n. (n, drop k s)) (read_rev (rev (take k s))))"

fun expect :: "char \<Rightarrow> string \<Rightarrow> string option" where
  "expect c [] = None"
| "expect c (x # xs) = (if x = c then Some xs else None)"

text \<open>
  \<^verbatim>\<open>datetime.isoformat\<close> of the Python standard library, which the serializer calls. It
  writes \<^verbatim>\<open>YYYY-MM-DD\<close>, the separator (the letter T unless the caller gives another one),
  \<^verbatim>\<open>HH:MM:SS\<close>, then \<^verbatim>\<open>.ffffff\<close> when the microseconds are not zero, then for an aware
  value the UTC offset as a sign and \<^verbatim>\<open>HH:MM\<close>, with \<^verbatim>\<open>:SS\<close> added when the offset is not
  a whole number of minutes and \<^verbatim>\<open>.ffffff\<close> when it is not a whole number of seconds.
\<close>

definition offset_text :: "nat \<Rightarrow> string" where
  "offset_text a =
     (let ss = a div 1000000 mod 60;
          us = a mod 1000000
      in zfill 2 (a div 3600000000) @ '':'' @ zfill 2 (a div 60000000 mod 60)
         @ (if ss = 0 \<and> us = 0 then []
            else '':'' @ zfill 2 ss @ (if us = 0 then [] else ''.'' @ zfill 6 us)))"

definition format_offset :: "int \<Rightarrow> string" where
  "format_offset off = (if off < 0 then ''-'' else ''+'') @ offset_text (nat \<bar>off\<bar>)"

definition isoformat :: "char \<Rightarrow> datetime \<Rightarrow> string" where
  "isoformat sep d =
     zfill 4 (year d) @ ''-'' @ zfill 2 (month d) @ ''-'' @ zfill 2 (day d) @ [sep]
     @ zfill 2 (hour d) @ '':'' @ zfill 2 (minute d) @ '':'' @ zfill 2 (second d)
     @ (if microsecond d = 0 then [] else ''.'' @ zfill 6 (microsecond d))
     @ (case utcoffset d of None \<Rightarrow> [] | Some off \<Rightarrow> format_offset off)"

text \<open>
  \<^verbatim>\<open>datetime.fromisoformat\<close> of the standard library, which the value parser calls, on
  the strings \<^verbatim>\<open>YYYY-MM-DD\<close> and \<^verbatim>\<open>YYYY-MM-DD*HH:MM:SS[.ffffff][+HH:MM[:SS[.ffffff]]]\<close>,
  where \<^verbatim>\<open>*\<close> is any single character and the sign of the offset may be minus; every
  string \<^verbatim>\<open>isoformat\<close> writes is one of them. A date alone is midnight of that day. An
  offset whose hours, minutes and seconds are all zero is read as UTC, whatever its
  microseconds are (so CPython 3.11 does). The library accepts more strings than these,
  depending on its version. What it does with every other string, and with a string of
  these forms whose fields are out of range, is not modelled: it is the parameter
  \<open>rest\<close> of \<open>fromisoformat\<close>.
\<close>

definition fraction :: "string \<Rightarrow> (nat \<times> string) option" where
  "fraction s = (case s of c # r \<Rightarrow> if c = CHR ''.'' then digits 6 r else Some (0, s)
                           | [] \<Rightarrow> Some (0, s))"

definition offset_fields :: "string \<Rightarrow> (nat \<times> nat) option" where
  "offset_fields s =
     do {
       (hh, s) \<leftarrow> digits 2 s;
       s \<leftarrow> expect CHR '':'' s;
       (mm, s) \<leftarrow> digits 2 s;
       if s = [] then Some (hh * 3600 + mm * 60, 0)
       else do {
         s \<leftarrow> expect CHR '':'' s;
         (ss, s) \<leftarrow> digits 2 s;
         (us, s) \<leftarrow> fraction s;
         if s = [] then Some (hh * 3600 + mm * 60 + ss, us) else None
       }
     }"

definition read_offset :: "string \<Rightarrow> int option option" where
  "read_offset s =
     (case s of
        [] \<Rightarrow> Some None
      | c # r \<Rightarrow>
          if c = CHR ''+'' \<or> c = CHR ''-'' then
            map_option
              (\<lambda>(secs, us). Some (if secs = 0 then 0
                  else (if c = CHR ''-'' then - 1 else 1) * int (secs * 1000000 + us)))
              (offset_fields r)
          else None)"

definition parse_fields :: "string \<Rightarrow> datetime option" where
  "parse_fields s =
     do {
       (y, s) \<leftarrow> digits 4 s;
       s \<leftarrow> expect CHR ''-'' s;
       (mo, s) \<leftarrow> digits 2 s;
       s \<leftarrow> expect CHR ''-'' s;
       (dd, s) \<leftarrow> digits 2 s;
       case s of
         [] \<Rightarrow> Some \<lparr>year = y, month = mo, day = dd, hour = 0, minute = 0, second = 0,
                     microsecond = 0, utcoffset = None\<rparr>
       | sep # s \<Rightarrow>
           do {
             (h, s) \<leftarrow> digits 2 s;
             s \<leftarrow> expect CHR '':'' s;
             (mi, s) \<leftarrow> digits 2 s;
             s \<leftarrow> expect CHR '':'' s;
             (se, s) \<leftarrow> digits 2 s;
             (us, s) \<leftarrow> fraction s;
             off \<leftarrow> read_offset s;
             Some \<lparr>year = y, month = mo, day = dd, hour = h, minute = mi, second = se,
                   microsecond = us, utcoffset = off\<rparr>
           }
     }"

definition fromisoformat :: "(string \<Rightarrow> exn + datetime) \<Rightarrow> string \<Rightarrow> exn + datetime" where
  "fromisoformat rest s =
     (case parse_fields s of
        None \<Rightarrow> rest s
      | Some d \<Rightarrow> if valid_datetime d then Inr d else rest s)"

text \<open>
  The offsets \<open>fromisoformat\<close> reads back as \<open>isoformat\<close> wrote them: none, zero, and those
  of one second or more.
\<close>

definition round_trip_offset :: "datetime \<Rightarrow> bool" where
  "round_trip_offset d =
     (case utcoffset d of None \<Rightarrow> True | Some off \<Rightarrow> off = 0 \<or> 1000000 \<le> \<bar>off\<bar>)"

text \<open>The serializer and the value parser of the scalar, from \<^verbatim>\<open>gql_schema.py\<close>.\<close>

definition serialize_datetime :: "('f, datetime) pyval \<Rightarrow> exn + string" where
  "serialize_datetime v =
     (case v of
        PDatetime d \<Rightarrow> Inr (isoformat CHR ''T'' d)
      | _ \<Rightarrow> Inl (ValueError ''Expected a datetime object''))"

definition parse_datetime ::
  "(string \<Rightarrow> exn + datetime) \<Rightarrow> ('f, datetime) pyval \<Rightarrow> exn + datetime" where
  "parse_datetime rest v =
     (case v of
        PStr s \<Rightarrow>
          (case fromisoformat rest s of
             Inl (ValueError m) \<Rightarrow>
               Inl (ValueError ''Invalid DateTime format. Expected ISO 8601 string.'')
           | Inl e \<Rightarrow> Inl e
           | Inr d \<Rightarrow> Inr d)
      | _ \<Rightarrow> Inl (TypeError ''fromisoformat: argument must be str''))"

text \<open>
  Examples: a naive datetime, one with microseconds and the offset \<^verbatim>\<open>+05:30\<close>, one whose
  offset is a single microsecond, and for the strings outside the modelled forms a
  library that rejects them, as the real one rejects \<^verbatim>\<open>14 March 2016\<close>.
\<close>

definition example_datetime :: datetime where
  "example_datetime = \<lparr>year = 2016, month = 3, day = 14, hour = 17, minute = 24, second = 55,
     microsecond = 0, utcoffset = None\<rparr>"

definition example_aware :: datetime where
  "example_aware = \<lparr>year = 2016, month = 3, day = 14, hour = 17, minute = 24, second = 55,
     microsecond = 250000, utcoffset = Some 19800000000\<rparr>"

definition example_skewed :: datetime where
  "example_skewed = \<lparr>year = 2016, month = 3, day = 14, hour = 17, minute = 24, second = 55,
     microsecond = 0, utcoffset = Some 1\<rparr>"

definition example_rest :: "string \<Rightarrow> exn + datetime" where
  "example_rest s = Inl (ValueError (''Invalid isoformat string: '' @ [CHR 0x27] @ s @ [CHR 0x27]))"

section \<open>Properties of the UUID text\<close>


lemma length_hex_digits [simp]: "length (hex_digits k n) = k"
  by (induction k arbitrary: n) simp_all


lemma length_str_uuid [simp]: "length (str_uuid u) = 36"
  by (simp add: str_uuid_def Let_def)


section \<open>The runs of the upload and trigger handlers\<close>

lemma upload_file_no_file:
  "map_of (files request) ''file'' = None \<Longrightarrow>
   upload_file E w request = (Response (PDict [(''error'', PStr ''No file part in the request'')]) 400, w)"
  by (simp add: upload_file_def)

lemma upload_file_empty_name:
  "map_of (files request) ''file'' = Some file \<Longrightarrow> filename file = [] \<Longrightarrow>
   upload_file E w request = (Response (PDict [(''error'', PStr ''No file selected'')]) 400, w)"
  by (simp add: upload_file_def)

lemma upload_file_store_fails:
  assumes "map_of (files request) ''file'' = Some file" "filename file \<noteq> []"
    and "s3_answer E (trace w) (S3_BUCKET E) (upload_key E w file) (stream file) = Some e"
  shows "upload_file E w request =
     (Response (PDict [(''error'', PStr (str_exn e))]) 500,
      w\<lparr>uuid_calls := Suc (uuid_calls w), trace := trace w @ [put_event E w file (Some e)]\<rparr>)"
  using assms
  by (simp add: upload_file_def uuid4_def s3_upload_fileobj_def upload_key_def put_event_def Let_def)

lemma upload_file_queue_fails:
  assumes "map_of (files request) ''file'' = Some file" "filename file \<noteq> []"
    and "s3_answer E (trace w) (S3_BUCKET E) (upload_key E w file) (stream file) = None"
    and "sqs_answer E (trace w @ [put_event E w file None])
           (job_request E (Suc (uuid_calls w)) (PStr (upload_key E w file))) = Inl e"
  shows "upload_file E w request =
     (Response (PDict [(''error'', PStr (str_exn e))]) 500,
      w\<lparr>uuid_calls := Suc (Suc (uuid_calls w)),
        objects := (objects w)((S3_BUCKET E, upload_key E w file) \<mapsto> stream file),
        trace := trace w @ [put_event E w file None,
           SQS_send_message (job_request E (Suc (uuid_calls w)) (PStr (upload_key E w file))) (Inl e)]\<rparr>)"
  using assms
  by (simp add: upload_file_def uuid4_def s3_upload_fileobj_def sqs_send_message_def
      upload_key_def put_event_def job_request_def job_message_def Let_def)

lemma upload_file_queued:
  assumes "map_of (files request) ''file'' = Some file" "filename file \<noteq> []"
    and "s3_answer E (trace w) (S3_BUCKET E) (upload_key E w file) (stream file) = None"
    and "sqs_answer E (trace w @ [put_event E w file None])
           (job_request E (Suc (uuid_calls w)) (PStr (upload_key E w file))) = Inr m"
  shows "upload_file E w request =
     (Response (PDict [(''message'', PStr ''File uploaded and ETL job queued successfully!''),
                       (''s3_key'', PStr (upload_key E w file)),
                       (''sqs_message_id'', PStr m)]) 200,
      w\<lparr>uuid_calls := Suc (Suc (uuid_calls w)),
        objects := (objects w)((S3_BUCKET E, upload_key E w file) \<mapsto> stream file),
        trace := trace w @ [put_event E w file None,
           SQS_send_message (job_request E (Suc (uuid_calls w)) (PStr (upload_key E w file))) (Inr m)]\<rparr>)"
  using assms
  by (simp add: upload_file_def uuid4_def s3_upload_fileobj_def sqs_send_message_def
      upload_key_def put_event_def job_request_def job_message_def Let_def)

lemma trigger_job_no_key:
  "getitem (json request) ''s3_key'' = Inl e \<Longrightarrow> trigger_job E w request = (Unhandled e, w)"
  by (simp add: trigger_job_def)



lemma upload_file_shape:
  assumes "upload_file E w request = (out, w')"
  shows "(\<exists>s. out = Response (PDict [(''error'', PStr s)]) 400 \<and> w' = w)
       \<or> (\<exists>file e. map_of (files request) ''file'' = Some file \<and>
             out = Response (PDict [(''error'', PStr (str_exn e))]) 500 \<and>
             objects w' = objects w \<and>
             trace w' = trace w @ [put_event E w file (Some e)])
       \<or> (\<exists>file r. map_of (files request) ''file'' = Some file \<and>
             (case r of Inl e \<Rightarrow> out = Response (PDict [(''error'', PStr (str_exn e))]) 500
                      | Inr m \<Rightarrow> status_of out = Some 200) \<and>
             objects w' = (objects w)((S3_BUCKET E, upload_key E w file) \<mapsto> stream file) \<and>
             trace w' = trace w @ [put_event E w file None,
                SQS_send_message (job_request E (Suc (uuid_calls w)) (PStr (upload_key E w file))) r])"
proof (cases "map_of (files request) ''file''")
  case None
  with assms upload_file_no_file [OF None, of E w] show ?thesis by auto
next
  case (Some f)
  then obtain fl where Some: "map_of (files request) ''file'' = Some fl" by blast
  show ?thesis
  proof (cases "filename fl = []")
    case True
    with assms upload_file_empty_name [OF Some True, of E w] show ?thesis by auto
  next
    case ne: False
    show ?thesis
    proof (cases "s3_answer E (trace w) (S3_BUCKET E) (upload_key E w fl) (stream fl)")
      case (Some e)
      from upload_file_store_fails [OF \<open>map_of (files request) ''file'' = Some fl\<close> ne Some] assms
      have "out = Response (PDict [(''error'', PStr (str_exn e))]) 500"
        and "w' = w\<lparr>uuid_calls := Suc (uuid_calls w), trace := trace w @ [put_event E w fl (Some e)]\<rparr>"
        by simp_all
      then show ?thesis
        using \<open>map_of (files request) ''file'' = Some fl\<close> by auto
    next
      case None
      show ?thesis
      proof (cases "sqs_answer E (trace w @ [put_event E w fl None])
           (job_request E (Suc (uuid_calls w)) (PStr (upload_key E w fl)))")
        case (Inl e)
        from upload_file_queue_fails [OF \<open>map_of (files request) ''file'' = Some fl\<close> ne None Inl] assms
        have "out = Response (PDict [(''error'', PStr (str_exn e))]) 500"
          and "w' = w\<lparr>uuid_calls := Suc (Suc (uuid_calls w)),
        objects := (objects w)((S3_BUCKET E, upload_key E w fl) \<mapsto> stream fl),
        trace := trace w @ [put_event E w fl None,
           SQS_send_message (job_request E (Suc (uuid_calls w)) (PStr (upload_key E w fl))) (Inl e)]\<rparr>"
          by simp_all
        then have "\<exists>r. (case r of Inl e \<Rightarrow> out = Response (PDict [(''error'', PStr (str_exn e))]) 500
                      | Inr m \<Rightarrow> status_of out = Some 200) \<and>
             objects w' = (objects w)((S3_BUCKET E, upload_key E w fl) \<mapsto> stream fl) \<and>
             trace w' = trace w @ [put_event E w fl None,
                SQS_send_message (job_request E (Suc (uuid_calls w)) (PStr (upload_key E w fl))) r]"
          by (intro exI [of _ "Inl e"]) simp
        then show ?thesis
          using \<open>map_of (files request) ''file'' = Some fl\<close> by blast
      next
        case (Inr m)
        from upload_file_queued [OF \<open>map_of (files request) ''file'' = Some fl\<close> ne None Inr] assms
        have "status_of out = Some 200"
          and "w' = w\<lparr>uuid_calls := Suc (Suc (uuid_calls w)),
        objects := (objects w)((S3_BUCKET E, upload_key E w fl) \<mapsto> stream fl),
        trace := trace w @ [put_event E w fl None,
           SQS_send_message (job_request E (Suc (uuid_calls w)) (PStr (upload_key E w fl))) (Inr m)]\<rparr>"
          by auto
        then have "\<exists>r. (case r of Inl e \<Rightarrow> out = Response (PDict [(''error'', PStr (str_exn e))]) 500
                      | Inr m \<Rightarrow> status_of out = Some 200) \<and>
             objects w' = (objects w)((S3_BUCKET E, upload_key E w fl) \<mapsto> stream fl) \<and>
             trace w' = trace w @ [put_event E w fl None,
                SQS_send_message (job_request E (Suc (uuid_calls w)) (PStr (upload_key E w fl))) r]"
          by (intro exI [of _ "Inr m"]) simp
        then show ?thesis
          using \<open>map_of (files request) ''file'' = Some fl\<close> by blast
      qed
    qed
  qed
qed


section \<open>Claims about the upload and trigger handlers\<close>

text \<open>
  C5. An upload request without a \<^verbatim>\<open>file\<close> field is answered with status 400 and a JSON
  error body; one whose file has an empty filename is answered with status 400. In both
  cases the world is returned unchanged: no object is written and nothing is sent to the
  queue.
\<close>

theorem upload_rejects_missing_file_or_name:
  "(map_of (files request) ''file'' = None \<longrightarrow>
      (\<exists>b. upload_file E w request = (Response b 400, w) \<and> is_error_envelope b))
   \<and> (\<forall>f. map_of (files request) ''file'' = Some f \<and> filename f = '''' \<longrightarrow>
      (\<exists>b. upload_file E w request = (Response b 400, w)))"
  by (auto simp: upload_file_no_file upload_file_empty_name)

theorem upload_rejects_missing_file_or_name_witness:
  "upload_file example_env empty_world \<lparr>files = []\<rparr>
     = (Response (PDict [(''error'', PStr ''No file part in the request'')]) 400, empty_world)
   \<and> upload_file example_env empty_world \<lparr>files = [(''file'', \<lparr>filename = '''', stream = ''x''\<rparr>)]\<rparr>
     = (Response (PDict [(''error'', PStr ''No file selected'')]) 400, empty_world)"
  using upload_rejects_missing_file_or_name [of "\<lparr>files = []\<rparr>" example_env empty_world]
    upload_rejects_missing_file_or_name
      [of "\<lparr>files = [(''file'', \<lparr>filename = '''', stream = ''x''\<rparr>)]\<rparr>" example_env empty_world]
  by (simp add: upload_file_def)

text \<open>
  C3. The claim is that a \<^verbatim>\<open>trigger_job\<close> request whose JSON body lacks \<^verbatim>\<open>s3_key\<close> is
  answered with status 400 and an error envelope. The handler subscripts the body before
  its \<^verbatim>\<open>try\<close> block: on the body \<^verbatim>\<open>{}\<close> the \<^verbatim>\<open>KeyError\<close> leaves the handler, and no
  response with status 400 is produced.
\<close>

theorem trigger_job_missing_key_unhandled:
  "trigger_job E w \<lparr>json = PDict []\<rparr> = (Unhandled (KeyError ''s3_key''), w)
   \<and> status_of (fst (trigger_job E w \<lparr>json = PDict []\<rparr>)) \<noteq> Some 400"
  by (simp add: trigger_job_def)

text \<open>
  C4. When the store write of an upload succeeds and the queue send then fails, the
  handler answers with status 500 and the error text, the object is in the store of the
  resulting world, and the request made exactly two client calls: the write and the
  failed send. No call removes the object.
\<close>

theorem upload_queue_failure_leaves_object:
  assumes "map_of (files request) ''file'' = Some f" and "filename f \<noteq> ''''"
    and "s3_answer E (trace w) (S3_BUCKET E) (upload_key E w f) (stream f) = None"
    and "sqs_answer E (trace w @ [put_event E w f None])
           (job_request E (Suc (uuid_calls w)) (PStr (upload_key E w f))) = Inl e"
  shows "\<exists>w'. upload_file E w request = (Response (PDict [(''error'', PStr (str_exn e))]) 500, w')
     \<and> objects w' (S3_BUCKET E, upload_key E w f) = Some (stream f)
     \<and> new_events w w' = [put_event E w f None,
          SQS_send_message (job_request E (Suc (uuid_calls w)) (PStr (upload_key E w f))) (Inl e)]"
  using upload_file_queue_fails [OF assms] by (simp add: new_events_def)

theorem upload_queue_failure_leaves_object_witness:
  "\<exists>w'. upload_file queue_down_env empty_world \<lparr>files = [(''file'', example_file)]\<rparr>
          = (Response (PDict [(''error'', PStr ''QueueDoesNotExist'')]) 500, w')
     \<and> objects w' (Some ''etl-bucket'', upload_key queue_down_env empty_world example_file)
          = Some ''id,vendor''
     \<and> length (new_events empty_world w') = 2"
  using upload_queue_failure_leaves_object
    [of "\<lparr>files = [(''file'', example_file)]\<rparr>" example_file queue_down_env empty_world
        "ClientError ''QueueDoesNotExist''"]
  by (auto simp add: queue_down_env_def example_env_def example_file_def)

text \<open>
  C1. In an upload, a queue message is sent only after the payload was written with
  success under the key the message names: whenever the request sends to the queue, its
  client calls are exactly the successful write of that key followed by the send, and the
  object is in the store. If the store write fails, the handler answers with status 500
  and the error text, and nothing is sent to the queue.
\<close>

theorem upload_write_before_notify:
  assumes "upload_file E w request = (out, w')"
  shows "trace w' = trace w @ new_events w w'
     \<and> (sqs_sends (new_events w w') \<noteq> [] \<longrightarrow>
          (\<exists>f r. map_of (files request) ''file'' = Some f \<and>
             new_events w w' = [put_event E w f None,
               SQS_send_message (job_request E (Suc (uuid_calls w)) (PStr (upload_key E w f))) r] \<and>
             objects w' (S3_BUCKET E, upload_key E w f) = Some (stream f)))
     \<and> (\<forall>b k p e. S3_upload_fileobj b k p (Some e) \<in> set (new_events w w') \<longrightarrow>
          out = Response (PDict [(''error'', PStr (str_exn e))]) 500 \<and>
          sqs_sends (new_events w w') = [])"
  using upload_file_shape [OF assms]
  by (elim disjE exE conjE) (auto simp: new_events_def put_event_def)


lemma example_upload_run:
  "upload_file example_env empty_world example_upload =
     (Response (PDict [(''message'', PStr ''File uploaded and ETL job queued successfully!''),
                       (''s3_key'', PStr (upload_key example_env empty_world example_file)),
                       (''sqs_message_id'', PStr (str_uuid (uuid4_of 1)))]) 200,
      \<lparr>uuid_calls = 2,
       objects = [(Some ''etl-bucket'', upload_key example_env empty_world example_file) \<mapsto> ''id,vendor''],
       trace = [put_event example_env empty_world example_file None,
           SQS_send_message (job_request example_env 1 (PStr (upload_key example_env empty_world example_file)))
             (Inr (str_uuid (uuid4_of 1)))]\<rparr>)"
proof -
  have "upload_file example_env empty_world example_upload = 
     (Response (PDict [(''message'', PStr ''File uploaded and ETL job queued successfully!''),
                       (''s3_key'', PStr (upload_key example_env empty_world example_file)),
                       (''sqs_message_id'', PStr (str_uuid (uuid4_of 1)))]) 200,
      empty_world\<lparr>uuid_calls := Suc (Suc (uuid_calls empty_world)),
        objects := (objects empty_world)((S3_BUCKET example_env, upload_key example_env empty_world example_file) \<mapsto> stream example_file),
        trace := trace empty_world @ [put_event example_env empty_world example_file None,
           SQS_send_message (job_request example_env (Suc (uuid_calls empty_world)) (PStr (upload_key example_env empty_world example_file))) (Inr (str_uuid (uuid4_of 1)))]\<rparr>)"
    by (rule upload_file_queued)
      (simp_all add: example_upload_def example_file_def example_env_def empty_world_def job_request_def)
  then show ?thesis
    by (simp add: empty_world_def example_env_def example_file_def)
qed

lemma store_down_run:
  "upload_file store_down_env empty_world example_upload =
     (Response (PDict [(''error'', PStr ''AccessDenied'')]) 500,
      \<lparr>uuid_calls = 1, objects = Map.empty,
       trace = [put_event store_down_env empty_world example_file (Some (ClientError ''AccessDenied''))]\<rparr>)"
proof -
  have "upload_file store_down_env empty_world example_upload =
     (Response (PDict [(''error'', PStr (str_exn (ClientError ''AccessDenied'')))]) 500,
      empty_world\<lparr>uuid_calls := Suc (uuid_calls empty_world),
        trace := trace empty_world @ [put_event store_down_env empty_world example_file (Some (ClientError ''AccessDenied''))]\<rparr>)"
    by (rule upload_file_store_fails)
      (simp_all add: example_upload_def example_file_def store_down_env_def example_env_def)
  then show ?thesis by (simp add: empty_world_def)
qed

theorem upload_write_before_notify_witness:
  "(\<exists>out w'. upload_file example_env empty_world example_upload = (out, w') \<and>
      sqs_sends (new_events empty_world w') \<noteq> [] \<and>
      (\<exists>f r. new_events empty_world w' = [put_event example_env empty_world f None,
               SQS_send_message (job_request example_env (Suc (uuid_calls empty_world))
                 (PStr (upload_key example_env empty_world f))) r] \<and>
             objects w' (S3_BUCKET example_env, upload_key example_env empty_world f) = Some (stream f)))
   \<and> (\<exists>out w' e. upload_file store_down_env empty_world example_upload = (out, w') \<and>
      put_event store_down_env empty_world example_file (Some e) \<in> set (new_events empty_world w') \<and>
      out = Response (PDict [(''error'', PStr (str_exn e))]) 500 \<and>
      sqs_sends (new_events empty_world w') = [])"
proof -
  obtain out1 w1 where r1: "upload_file example_env empty_world example_upload = (out1, w1)"
    by force
  have s1: "sqs_sends (new_events empty_world w1) \<noteq> []"
    using r1 [unfolded example_upload_run] by (auto simp: new_events_def empty_world_def put_event_def)
  from upload_write_before_notify [OF r1] s1
  have "\<exists>f r. new_events empty_world w1 = [put_event example_env empty_world f None,
               SQS_send_message (job_request example_env (Suc (uuid_calls empty_world))
                 (PStr (upload_key example_env empty_world f))) r] \<and>
             objects w1 (S3_BUCKET example_env, upload_key example_env empty_world f) = Some (stream f)"
    by blast
  with r1 s1 have first: "\<exists>out w'. upload_file example_env empty_world example_upload = (out, w') \<and>
      sqs_sends (new_events empty_world w') \<noteq> [] \<and>
      (\<exists>f r. new_events empty_world w' = [put_event example_env empty_world f None,
               SQS_send_message (job_request example_env (Suc (uuid_calls empty_world))
                 (PStr (upload_key example_env empty_world f))) r] \<and>
             objects w' (S3_BUCKET example_env, upload_key example_env empty_world f) = Some (stream f))"
    by blast
  obtain out2 w2 where r2: "upload_file store_down_env empty_world example_upload = (out2, w2)"
    by force
  have s2: "put_event store_down_env empty_world example_file (Some (ClientError ''AccessDenied''))
      \<in> set (new_events empty_world w2)"
    using r2 [unfolded store_down_run] by (auto simp: new_events_def empty_world_def)
  then have "S3_upload_fileobj (S3_BUCKET store_down_env)
      (upload_key store_down_env empty_world example_file) (stream example_file)
      (Some (ClientError ''AccessDenied'')) \<in> set (new_events empty_world w2)"
    by (simp add: put_event_def)
  with upload_write_before_notify [OF r2]
  have "out2 = Response (PDict [(''error'', PStr (str_exn (ClientError ''AccessDenied'')))]) 500 \<and>
      sqs_sends (new_events empty_world w2) = []"
    by blast
  with r2 s2 have "\<exists>out w' e. upload_file store_down_env empty_world example_upload = (out, w') \<and>
      put_event store_down_env empty_world example_file (Some e) \<in> set (new_events empty_world w') \<and>
      out = Response (PDict [(''error'', PStr (str_exn e))]) 500 \<and>
      sqs_sends (new_events empty_world w') = []"
    by blast
  with first show ?thesis by blast
qed












section \<open>Claims about the query service\<close>

text \<open>
  C6. When the trips table is empty and the session works, \<^verbatim>\<open>GET /trips/stats\<close> answers
  with status 200, \<^verbatim>\<open>average_trip_duration\<close> \<^verbatim>\<open>None\<close> (JSON null), \<^verbatim>\<open>total_days\<close> 0 and an
  empty \<^verbatim>\<open>trips_per_day\<close> list.
\<close>

theorem trip_stats_of_empty_table:
  assumes "trips D = []" and "db_fault D = None"
  shows "get_trip_stats D = Response (PDict [(''average_trip_duration'', PNone),
            (''total_days'', PInt 0), (''trips_per_day'', PList [])]) 200"
  using assms
  by (simp add: get_trip_stats_def avg_trip_duration_def trips_per_day_rows_def count_distinct_days_def)

theorem trip_stats_of_empty_table_witness:
  "get_trip_stats empty_database = Response (PDict [(''average_trip_duration'', PNone),
            (''total_days'', PInt 0), (''trips_per_day'', PList [])]) 200"
  using trip_stats_of_empty_table [of empty_database]
  by (simp add: empty_database_def)

text \<open>
  C10. The resolver \<^verbatim>\<open>allTrips\<close> tests the truth value of \<^verbatim>\<open>vendor_id\<close>: with
  \<^verbatim>\<open>vendor_id\<close> 0 it returns what it returns without a vendor filter, for the same limit,
  offset and dates.
\<close>

theorem all_trips_vendor_zero_is_no_filter:
  "resolve_all_trips D limit offset (Some 0) start_date end_date
     = resolve_all_trips D limit offset None start_date end_date"
  by (simp add: resolve_all_trips_def)

lemma all_trips_vendor_zero_example:
  "resolve_all_trips example_database (Some 10) (Some 0) (Some 0) None None
     = Inr [example_trip ''a'' 1 4 1 2, example_trip ''b'' 2 7 1 1, example_trip ''c'' 0 12 2 2]"
  by (simp add: resolve_all_trips_def query_all_def example_database_def empty_database_def
      apply_offset_def apply_limit_def)

lemma map_of_without_dates:
  "map_of [a \<leftarrow> args. fst a \<noteq> ''start_date'' \<and> fst a \<noteq> ''end_date''] k
     = (if k = ''start_date'' \<or> k = ''end_date'' then None else map_of args k)"
  by (induction args) auto

lemma query_all_rows:
  assumes "query_all D q None None = Inr rows"
  shows "\<exists>ps. compile_all D q = Inr ps \<and> rows = [t \<leftarrow> trips D. list_all (\<lambda>p. p t) ps]"
  using assms
  by (auto simp: query_all_def apply_offset_def apply_limit_def split: option.splits sum.splits)

lemma trips_query_longitude:
  assumes "trips_query D args = Inr rows" and "map_of args ''pickup_long'' = Some s" and "s \<noteq> []"
  shows "\<exists>x. py_float D s = Inr x \<and>
           (\<forall>t \<in> set rows. \<exists>v. pickup_longitude t = Some v \<and> float_eq D v x)"
  using assms unfolding trips_query_def Let_def
  by (auto split: if_splits sum.splits option.splits dest!: query_all_rows)

lemma trips_query_latitude:
  assumes "trips_query D args = Inr rows" and "map_of args ''pickup_lat'' = Some s" and "s \<noteq> []"
  shows "\<exists>x. py_float D s = Inr x \<and>
           (\<forall>t \<in> set rows. \<exists>v. pickup_latitude t = Some v \<and> float_eq D v x)"
  using assms unfolding trips_query_def Let_def
  by (auto split: if_splits sum.splits option.splits dest!: query_all_rows)

lemma trips_query_dates:
  assumes "trips_query D args = Inr rows"
    and "map_of args ''start_date'' = Some a" and "a \<noteq> []"
    and "map_of args ''end_date'' = Some b" and "b \<noteq> []"
  shows "\<exists>lo hi. cast_timestamp D a = Inr lo \<and> cast_timestamp D b = Inr hi \<and>
           (\<forall>t \<in> set rows. \<exists>d. pickup_datetime t = Some d \<and>
                timestamp_le D lo d \<and> timestamp_le D d hi)"
  using assms unfolding trips_query_def Let_def
  by (auto split: if_splits sum.splits option.splits dest!: query_all_rows)

lemma trips_query_subset:
  assumes "trips_query D args = Inr rows"
  shows "set rows \<subseteq> set (trips D)"
  using assms unfolding trips_query_def Let_def
  by (auto split: if_splits sum.splits option.splits dest!: query_all_rows)

lemma trips_query_without_dates:
  assumes "\<not> (truthy (map_of args ''start_date'') \<and> truthy (map_of args ''end_date''))"
  shows "trips_query D args
     = trips_query D [a \<leftarrow> args. fst a \<noteq> ''start_date'' \<and> fst a \<noteq> ''end_date'']"
proof -
  let ?args = "[a \<leftarrow> args. fst a \<noteq> ''start_date'' \<and> fst a \<noteq> ''end_date'']"
  have m: "map_of ?args ''start_date'' = None" "map_of ?args ''end_date'' = None"
    "map_of ?args ''pickup_long'' = map_of args ''pickup_long''"
    "map_of ?args ''pickup_lat'' = map_of args ''pickup_lat''"
    by (simp_all add: map_of_without_dates)
  from assms have c: "(truthy (map_of args ''start_date'') \<and> truthy (map_of args ''end_date'')) = False"
    by simp
  show ?thesis
    unfolding trips_query_def Let_def m c by simp
qed


text \<open>
  C7. Let \<^verbatim>\<open>GET /trips\<close> answer with status 200. Its body is the serialization of rows of
  the table. When \<^verbatim>\<open>pickup_long\<close> (resp. \<^verbatim>\<open>pickup_lat\<close>) is given with a non-empty value,
  every row has a pickup longitude (resp. latitude) that the engine finds equal to the
  float of that value; the two filters are independent. When \<^verbatim>\<open>start_date\<close> and
  \<^verbatim>\<open>end_date\<close> are both given and non-empty, every row has its pickup time between the
  two bounds. When one of them is missing or empty, the answer is the one of the same
  request without any of the two: no time filter is applied.
\<close>

theorem get_trips_filters:
  assumes "get_trips D args = Response body 200"
  shows "\<exists>rows. trips_query D args = Inr rows \<and> body = PList (map to_dict rows) \<and>
      set rows \<subseteq> set (trips D) \<and>
      (\<forall>s. map_of args ''pickup_long'' = Some s \<and> s \<noteq> '''' \<longrightarrow>
         (\<exists>x. py_float D s = Inr x \<and>
            (\<forall>t \<in> set rows. \<exists>v. pickup_longitude t = Some v \<and> float_eq D v x))) \<and>
      (\<forall>s. map_of args ''pickup_lat'' = Some s \<and> s \<noteq> '''' \<longrightarrow>
         (\<exists>x. py_float D s = Inr x \<and>
            (\<forall>t \<in> set rows. \<exists>v. pickup_latitude t = Some v \<and> float_eq D v x))) \<and>
      (\<forall>a b. map_of args ''start_date'' = Some a \<and> a \<noteq> '''' \<and>
             map_of args ''end_date'' = Some b \<and> b \<noteq> '''' \<longrightarrow>
         (\<exists>lo hi. cast_timestamp D a = Inr lo \<and> cast_timestamp D b = Inr hi \<and>
            (\<forall>t \<in> set rows. \<exists>d. pickup_datetime t = Some d \<and>
                timestamp_le D lo d \<and> timestamp_le D d hi))) \<and>
      (\<not> (truthy (map_of args ''start_date'') \<and> truthy (map_of args ''end_date'')) \<longrightarrow>
         get_trips D args
           = get_trips D [a \<leftarrow> args. fst a \<noteq> ''start_date'' \<and> fst a \<noteq> ''end_date''])"
proof -
  from assms obtain rows where q: "trips_query D args = Inr rows"
    and b: "body = PList (map to_dict rows)"
    by (auto simp: get_trips_def split: sum.splits)
  have "\<not> (truthy (map_of args ''start_date'') \<and> truthy (map_of args ''end_date'')) \<longrightarrow>
         get_trips D args
           = get_trips D [a \<leftarrow> args. fst a \<noteq> ''start_date'' \<and> fst a \<noteq> ''end_date'']"
    using trips_query_without_dates [of args D] by (simp add: get_trips_def)
  then show ?thesis
    using q b trips_query_subset [OF q] trips_query_longitude [OF q] trips_query_latitude [OF q]
      trips_query_dates [OF q]
    by (intro exI [of _ rows]) blast
qed

lemma only_start_query:
  "trips_query example_database only_start_args
     = Inr [example_trip ''a'' 1 4 1 2, example_trip ''b'' 2 7 1 1]"
  by (simp add: trips_query_def only_start_args_def example_database_def empty_database_def
      query_all_def apply_offset_def apply_limit_def example_trip_def)

lemma range_query:
  "trips_query example_database range_args = Inr [example_trip ''b'' 2 7 1 1]"
  by (simp add: trips_query_def range_args_def example_database_def empty_database_def
      query_all_def apply_offset_def apply_limit_def example_trip_def)

theorem get_trips_filters_witness:
  "get_trips example_database only_start_args
      = Response (PList (map to_dict [example_trip ''a'' 1 4 1 2, example_trip ''b'' 2 7 1 1])) 200
   \<and> get_trips example_database only_start_args = get_trips example_database [(''pickup_long'', ''1'')]
   \<and> pickup_longitude (example_trip ''a'' 1 4 1 2) = Some 1
   \<and> pickup_longitude (example_trip ''b'' 2 7 1 1) = Some 1
   \<and> get_trips example_database range_args
      = Response (PList (map to_dict [example_trip ''b'' 2 7 1 1])) 200
   \<and> pickup_latitude (example_trip ''b'' 2 7 1 1) = Some 1
   \<and> (\<exists>d. pickup_datetime (example_trip ''b'' 2 7 1 1) = Some d \<and> 5 \<le> d \<and> d \<le> 9)"
proof -
  have r1: "get_trips example_database only_start_args
      = Response (PList (map to_dict [example_trip ''a'' 1 4 1 2, example_trip ''b'' 2 7 1 1])) 200"
    by (simp add: get_trips_def only_start_query)
  have r2: "get_trips example_database range_args
      = Response (PList (map to_dict [example_trip ''b'' 2 7 1 1])) 200"
    by (simp add: get_trips_def range_query)
  from get_trips_filters [OF r1] obtain rows1 where
    q1: "trips_query example_database only_start_args = Inr rows1"
    and l1: "\<forall>s. map_of only_start_args ''pickup_long'' = Some s \<and> s \<noteq> '''' \<longrightarrow>
         (\<exists>x. py_float example_database s = Inr x \<and>
            (\<forall>t \<in> set rows1. \<exists>v. pickup_longitude t = Some v \<and> float_eq example_database v x))"
    and n1: "\<not> (truthy (map_of only_start_args ''start_date'') \<and> truthy (map_of only_start_args ''end_date'')) \<longrightarrow>
         get_trips example_database only_start_args
           = get_trips example_database [a \<leftarrow> only_start_args. fst a \<noteq> ''start_date'' \<and> fst a \<noteq> ''end_date'']"
    by (elim exE conjE) (rule that)
  from q1 have rows1: "rows1 = [example_trip ''a'' 1 4 1 2, example_trip ''b'' 2 7 1 1]"
    by (simp add: only_start_query)
  have "map_of only_start_args ''pickup_long'' = Some ''1'' \<and> ''1'' \<noteq> ''''"
    by (simp add: only_start_args_def)
  with l1 have a: "\<exists>x. py_float example_database ''1'' = Inr x \<and>
          (\<forall>t \<in> set [example_trip ''a'' 1 4 1 2, example_trip ''b'' 2 7 1 1].
             \<exists>v. pickup_longitude t = Some v \<and> float_eq example_database v x)"
    unfolding rows1 by (elim allE [of _ "''1''"]) simp
  have nt: "\<not> (truthy (map_of only_start_args ''start_date'') \<and> truthy (map_of only_start_args ''end_date''))"
    by (simp add: only_start_args_def)
  from mp [OF n1 nt] have b: "get_trips example_database only_start_args
       = get_trips example_database [a \<leftarrow> only_start_args. fst a \<noteq> ''start_date'' \<and> fst a \<noteq> ''end_date'']"
    .
  from get_trips_filters [OF r2] obtain rows2 where
    q2: "trips_query example_database range_args = Inr rows2"
    and l2: "\<forall>s. map_of range_args ''pickup_lat'' = Some s \<and> s \<noteq> '''' \<longrightarrow>
         (\<exists>x. py_float example_database s = Inr x \<and>
            (\<forall>t \<in> set rows2. \<exists>v. pickup_latitude t = Some v \<and> float_eq example_database v x))"
    and d2: "\<forall>a b. map_of range_args ''start_date'' = Some a \<and> a \<noteq> '''' \<and>
             map_of range_args ''end_date'' = Some b \<and> b \<noteq> '''' \<longrightarrow>
         (\<exists>lo hi. cast_timestamp example_database a = Inr lo \<and> cast_timestamp example_database b = Inr hi \<and>
            (\<forall>t \<in> set rows2. \<exists>d. pickup_datetime t = Some d \<and>
                timestamp_le example_database lo d \<and> timestamp_le example_database d hi))"
    by (elim exE conjE) (rule that)
  from q2 have rows2: "rows2 = [example_trip ''b'' 2 7 1 1]"
    by (simp add: range_query)
  have "map_of range_args ''pickup_lat'' = Some ''1'' \<and> ''1'' \<noteq> ''''"
    by (simp add: range_args_def)
  with l2 have c: "\<exists>x. py_float example_database ''1'' = Inr x \<and>
          (\<forall>t \<in> set [example_trip ''b'' 2 7 1 1].
             \<exists>v. pickup_latitude t = Some v \<and> float_eq example_database v x)"
    unfolding rows2 by (elim allE [of _ "''1''"]) simp
  have "map_of range_args ''start_date'' = Some ''d5'' \<and> ''d5'' \<noteq> '''' \<and>
             map_of range_args ''end_date'' = Some ''d9'' \<and> ''d9'' \<noteq> ''''"
    by (simp add: range_args_def)
  with d2 have d: "\<exists>lo hi. cast_timestamp example_database ''d5'' = Inr lo \<and>
          cast_timestamp example_database ''d9'' = Inr hi \<and>
          (\<forall>t \<in> set [example_trip ''b'' 2 7 1 1]. \<exists>d. pickup_datetime t = Some d \<and>
                timestamp_le example_database lo d \<and> timestamp_le example_database d hi)"
    unfolding rows2 by (elim allE [of _ "''d5''"] allE [of _ "''d9''"]) simp
  from a have a': "\<forall>t \<in> set [example_trip ''a'' 1 4 1 2, example_trip ''b'' 2 7 1 1]. pickup_longitude t = Some 1"
    by (simp add: example_database_def empty_database_def)
  from c d have c': "\<forall>t \<in> set [example_trip ''b'' 2 7 1 1].
        pickup_latitude t = Some 1 \<and> (\<exists>d. pickup_datetime t = Some d \<and> 5 \<le> d \<and> d \<le> 9)"
    by (simp add: example_database_def empty_database_def)
  from b have b': "get_trips example_database only_start_args = get_trips example_database [(''pickup_long'', ''1'')]"
    by (simp add: only_start_args_def)
  from a' have a'': "pickup_longitude (example_trip ''a'' 1 4 1 2) = Some 1"
    "pickup_longitude (example_trip ''b'' 2 7 1 1) = Some 1"
    by simp_all
  from c' have c'': "pickup_latitude (example_trip ''b'' 2 7 1 1) = Some 1"
    "\<exists>d. pickup_datetime (example_trip ''b'' 2 7 1 1) = Some d \<and> 5 \<le> d \<and> d \<le> 9"
    by simp_all
  from r1 b' a'' r2 c'' show ?thesis by (intro conjI)
qed

section \<open>Properties of the DateTime scalar\<close>

lemma digit_val_digit_char: "v < 10 \<Longrightarrow> digit_val (digit_char v) = Some v"
  by (simp add: digit_val_def digit_char_def Let_def)

lemma length_zfill [simp]: "length (zfill k n) = k"
  by (induction k arbitrary: n) simp_all

lemma read_rev_zfill: "n < 10 ^ k \<Longrightarrow> read_rev (rev (zfill k n)) = Some n"
proof (induction k arbitrary: n)
  case 0
  then show ?case by simp
next
  case (Suc k)
  then have "n div 10 < 10 ^ k"
    by (simp add: less_mult_imp_div_less mult.commute)
  with Suc.IH have "read_rev (rev (zfill k (n div 10))) = Some (n div 10)" .
  then show ?case
    by (simp add: digit_val_digit_char)
qed

lemma digits_zfill: "n < 10 ^ k \<Longrightarrow> digits k (zfill k n @ r) = Some (n, r)"
  by (simp add: digits_def read_rev_zfill)

lemma zfill_2: "zfill 2 n = [digit_char (n div 10 mod 10), digit_char (n mod 10)]"
proof -
  have "zfill (Suc (Suc 0)) n = [digit_char (n div 10 mod 10), digit_char (n mod 10)]"
    by simp
  then show ?thesis by (simp only: numeral_2_eq_2)
qed

lemma zfill_4:
  "zfill 4 n = [digit_char (n div 1000 mod 10), digit_char (n div 100 mod 10),
                digit_char (n div 10 mod 10), digit_char (n mod 10)]"
proof -
  have "zfill (Suc (Suc (Suc (Suc 0)))) n = [digit_char (n div 1000 mod 10),
      digit_char (n div 100 mod 10), digit_char (n div 10 mod 10), digit_char (n mod 10)]"
    by (simp add: div_mult2_eq [symmetric])
  moreover have "(4::nat) = Suc (Suc (Suc (Suc 0)))" by simp
  ultimately show ?thesis by (simp only:)
qed

lemma zfill_6:
  "zfill 6 n = [digit_char (n div 100000 mod 10), digit_char (n div 10000 mod 10),
                digit_char (n div 1000 mod 10), digit_char (n div 100 mod 10),
                digit_char (n div 10 mod 10), digit_char (n mod 10)]"
proof -
  have "zfill (Suc (Suc (Suc (Suc (Suc (Suc 0)))))) n = [digit_char (n div 100000 mod 10),
      digit_char (n div 10000 mod 10), digit_char (n div 1000 mod 10),
      digit_char (n div 100 mod 10), digit_char (n div 10 mod 10), digit_char (n mod 10)]"
    by (simp add: div_mult2_eq [symmetric])
  moreover have "(6::nat) = Suc (Suc (Suc (Suc (Suc (Suc 0)))))" by simp
  ultimately show ?thesis by (simp only:)
qed

lemma fraction_written:
  assumes "us < 10 ^ 6" and "r = [] \<or> hd r \<noteq> CHR ''.''"
  shows "fraction ((if us = 0 then [] else ''.'' @ zfill 6 us) @ r) = Some (us, r)"
proof (cases "us = 0")
  case True
  with assms(2) show ?thesis
    by (cases r) (simp_all add: fraction_def)
next
  case False
  with digits_zfill [OF assms(1), of r] show ?thesis
    by (simp add: fraction_def)
qed

lemma offset_split:
  "a div 3600000000 * 3600 + a div 60000000 mod 60 * 60 + a div 1000000 mod 60
     = (a::nat) div 1000000"
proof -
  define q where "q = a div 1000000"
  define r where "r = q div 60"
  define hh where "hh = r div 60"
  define mm where "mm = r mod 60"
  define ss where "ss = q mod 60"
  have h: "a div 3600000000 = hh" "a div 60000000 = r"
    unfolding hh_def r_def q_def by (simp_all add: div_mult2_eq [symmetric])
  have 2: "q = r * 60 + ss" unfolding r_def ss_def by simp
  have 3: "r = hh * 60 + mm" unfolding hh_def mm_def by simp
  have "hh * 3600 + mm * 60 + ss = q"
    unfolding 2 3 by (simp add: add_mult_distrib)
  then show ?thesis
    unfolding h mm_def [symmetric] q_def [symmetric] ss_def [symmetric] .
qed

lemma offset_fields_written:
  assumes "a < 86400000000"
  shows "offset_fields (offset_text a) = Some (a div 1000000, a mod 1000000)"
proof -
  from assms have "a div 3600000000 < 24"
    by (simp add: less_mult_imp_div_less)
  then have hh: "a div 3600000000 < 10 ^ 2" by simp
  have mm: "a div 60000000 mod 60 < 10 ^ 2"
    by (rule less_trans [of _ 60]) simp_all
  have ss: "a div 1000000 mod 60 < 10 ^ 2"
    by (rule less_trans [of _ 60]) simp_all
  have us: "a mod 1000000 < 10 ^ 6" by simp
  have fr: "fraction (if a mod 1000000 = 0 then [] else ''.'' @ zfill 6 (a mod 1000000))
      = Some (a mod 1000000, [])"
    using fraction_written [OF us, of "[]"] by simp
  show ?thesis
  proof (cases "a div 1000000 mod 60 = 0 \<and> a mod 1000000 = 0")
    case True
    with offset_split [of a]
    have "a div 3600000000 * 3600 + a div 60000000 mod 60 * 60 = a div 1000000"
      by simp
    with True show ?thesis
      unfolding offset_fields_def offset_text_def Let_def
      by (simp add: digits_zfill [OF hh] digits_zfill [OF mm, of "[]", simplified])
  next
    case False
    then have c: "(a div 1000000 mod 60 = 0 \<and> a mod 1000000 = 0) = False" by simp
    show ?thesis
      unfolding offset_fields_def offset_text_def Let_def c if_False
      using offset_split [of a]
      by (simp add: digits_zfill [OF hh] digits_zfill [OF mm] digits_zfill [OF ss] fr)
  qed
qed

lemma offset_format_offset:
  assumes "- 86400000000 < off" "off < 86400000000" and "off = 0 \<or> 1000000 \<le> \<bar>off\<bar>"
  shows "read_offset (format_offset off) = Some (Some off)"
proof -
  define a where "a = nat \<bar>off\<bar>"
  from assms have a: "a < 86400000000" by (simp add: a_def)
  define t where "t = offset_text a"
  have f: "offset_fields t = Some (a div 1000000, a mod 1000000)"
    unfolding t_def by (rule offset_fields_written [OF a])
  have "read_offset ((if off < 0 then ''-'' else ''+'') @ t) = Some (Some (if a div 1000000 = 0 then 0
      else (if off < 0 then - 1 else 1) * int (a div 1000000 * 1000000 + a mod 1000000)))"
    by (cases "off < 0") (simp_all add: read_offset_def f)
  then have o: "read_offset (format_offset off) = Some (Some (if a div 1000000 = 0 then 0
      else (if off < 0 then - 1 else 1) * int (a div 1000000 * 1000000 + a mod 1000000)))"
    unfolding format_offset_def t_def a_def .
  have w: "int (a div 1000000 * 1000000 + a mod 1000000) = \<bar>off\<bar>"
    by (simp add: a_def)
  have v: "(if a div 1000000 = 0 then 0
      else (if off < 0 then - 1 else 1) * int (a div 1000000 * 1000000 + a mod 1000000)) = off"
  proof (cases "off = 0")
    case True
    then show ?thesis by (simp add: a_def)
  next
    case False
    with assms(3) have "1000000 \<le> a" by (simp add: a_def)
    then have "a div 1000000 \<noteq> 0" by (simp add: div_eq_0_iff)
    then show ?thesis unfolding w by simp
  qed
  show ?thesis unfolding o v ..
qed

lemma format_offset_head: "format_offset off \<noteq> [] \<and> hd (format_offset off) \<noteq> CHR ''.''"
  by (simp add: format_offset_def Let_def)

lemma parse_fields_isoformat:
  assumes "valid_datetime d" and "round_trip_offset d"
  shows "parse_fields (isoformat sep d) = Some d"
proof -
  from assms(1) have b: "year d < 10 ^ 4" "month d < 10 ^ 2" "day d < 10 ^ 2" "hour d < 10 ^ 2"
    "minute d < 10 ^ 2" "second d < 10 ^ 2" "microsecond d < 10 ^ 6"
    by (auto simp: valid_datetime_def days_in_month_def split: if_splits)
  define tz where "tz = (case utcoffset d of None \<Rightarrow> [] | Some off \<Rightarrow> format_offset off)"
  have h: "tz = [] \<or> hd tz \<noteq> CHR ''.''"
    using format_offset_head by (simp add: tz_def split: option.split)
  have o: "read_offset tz = Some (utcoffset d)"
  proof (cases "utcoffset d")
    case None
    then show ?thesis by (simp add: tz_def read_offset_def)
  next
    case (Some off)
    with assms have "- 86400000000 < off" "off < 86400000000" "off = 0 \<or> 1000000 \<le> \<bar>off\<bar>"
      by (simp_all add: valid_datetime_def round_trip_offset_def)
    from offset_format_offset [OF this] Some show ?thesis
      by (simp add: tz_def)
  qed
  have f: "fraction ((if microsecond d = 0 then [] else ''.'' @ zfill 6 (microsecond d)) @ tz)
      = Some (microsecond d, tz)"
    by (rule fraction_written [OF b(7) h])
  show ?thesis
    unfolding parse_fields_def isoformat_def tz_def [symmetric]
    by (simp add: digits_zfill [OF b(1)] digits_zfill [OF b(2)] digits_zfill [OF b(3)]
        digits_zfill [OF b(4)] digits_zfill [OF b(5)] digits_zfill [OF b(6)] f o)
qed

text \<open>
  C9. For every valid datetime that is naive or whose UTC offset is zero or at least one
  second, serializing it with the scalar and parsing the text back gives the datetime,
  and so does parsing the text written with any other character between the date and the
  time of day. The value parser returns a datetime exactly when \<^verbatim>\<open>datetime.fromisoformat\<close>
  returns it, and it raises the scalar's \<^verbatim>\<open>ValueError\<close>, which the GraphQL library
  reports as a coercion error, whenever \<^verbatim>\<open>datetime.fromisoformat\<close> raises a
  \<^verbatim>\<open>ValueError\<close>.
\<close>

theorem datetime_scalar_round_trip:
  "(valid_datetime d \<and> round_trip_offset d \<longrightarrow>
      (\<exists>s. serialize_datetime (PDatetime d) = Inr s \<and> parse_datetime rest (PStr s) = Inr d))
   \<and> (valid_datetime d \<and> round_trip_offset d \<longrightarrow>
        parse_datetime rest (PStr (isoformat sep d)) = Inr d)
   \<and> (fromisoformat rest t = Inl (ValueError m) \<longrightarrow>
        parse_datetime rest (PStr t)
          = Inl (ValueError ''Invalid DateTime format. Expected ISO 8601 string.''))
   \<and> (parse_datetime rest (PStr t') = Inr d') = (fromisoformat rest t' = Inr d')"
proof (intro conjI impI)
  assume "valid_datetime d \<and> round_trip_offset d"
  then have "parse_fields (isoformat CHR ''T'' d) = Some d" and "valid_datetime d"
    by (simp_all add: parse_fields_isoformat)
  then show "\<exists>s. serialize_datetime (PDatetime d) = Inr s \<and> parse_datetime rest (PStr s) = Inr d"
    by (simp add: serialize_datetime_def parse_datetime_def fromisoformat_def)
next
  assume "valid_datetime d \<and> round_trip_offset d"
  then have "parse_fields (isoformat sep d) = Some d" and "valid_datetime d"
    by (simp_all add: parse_fields_isoformat)
  then show "parse_datetime rest (PStr (isoformat sep d)) = Inr d"
    by (simp add: parse_datetime_def fromisoformat_def)
next
  assume "fromisoformat rest t = Inl (ValueError m)"
  then show "parse_datetime rest (PStr t)
      = Inl (ValueError ''Invalid DateTime format. Expected ISO 8601 string.'')"
    by (simp add: parse_datetime_def)
next
  show "(parse_datetime rest (PStr t') = Inr d') = (fromisoformat rest t' = Inr d')"
    by (simp add: parse_datetime_def split: sum.split exn.split)
qed

theorem datetime_scalar_round_trip_witness:
  "valid_datetime example_aware \<and> round_trip_offset example_aware
   \<and> serialize_datetime (PDatetime example_aware :: (int, datetime) pyval)
        = Inr ''2016-03-14T17:24:55.250000+05:30''
   \<and> parse_datetime example_rest (PStr ''2016-03-14T17:24:55.250000+05:30'' :: (int, datetime) pyval)
        = Inr example_aware
   \<and> parse_datetime example_rest (PStr ''2016-03-14 17:24:55.250000+05:30'' :: (int, datetime) pyval)
        = Inr example_aware
   \<and> fromisoformat example_rest ''14 March 2016''
        = Inl (ValueError (''Invalid isoformat string: '' @ [CHR 0x27] @ ''14 March 2016'' @ [CHR 0x27]))
   \<and> parse_datetime example_rest (PStr ''14 March 2016'' :: (int, datetime) pyval)
        = Inl (ValueError ''Invalid DateTime format. Expected ISO 8601 string.'')"
proof -
  have v: "valid_datetime example_aware" "round_trip_offset example_aware"
    by (simp_all add: valid_datetime_def round_trip_offset_def example_aware_def days_in_month_def)
  have s: "serialize_datetime (PDatetime example_aware :: (int, datetime) pyval)
      = Inr ''2016-03-14T17:24:55.250000+05:30''"
    by (simp add: serialize_datetime_def isoformat_def example_aware_def format_offset_def
        offset_text_def zfill_4 zfill_2 zfill_6 digit_char_def char_of_def bit_0)
  have w: "isoformat CHR '' '' example_aware = ''2016-03-14 17:24:55.250000+05:30''"
    by (simp add: isoformat_def example_aware_def format_offset_def
        offset_text_def zfill_4 zfill_2 zfill_6 digit_char_def char_of_def bit_0)
  have "parse_fields ''14 March 2016'' = None"
    by (simp add: parse_fields_def digits_def digit_val_def)
  then have f: "fromisoformat example_rest ''14 March 2016''
      = Inl (ValueError (''Invalid isoformat string: '' @ [CHR 0x27] @ ''14 March 2016'' @ [CHR 0x27]))"
    by (simp add: fromisoformat_def example_rest_def)
  note t = datetime_scalar_round_trip [of example_aware example_rest "CHR '' ''"
      "''14 March 2016''" "''Invalid isoformat string: '' @ [CHR 0x27] @ ''14 March 2016'' @ [CHR 0x27]"]
  from t v obtain s0 where a: "serialize_datetime (PDatetime example_aware :: (int, datetime) pyval) = Inr s0"
    and b: "parse_datetime example_rest (PStr s0 :: (int, datetime) pyval) = Inr example_aware"
    by blast
  from a s have "s0 = ''2016-03-14T17:24:55.250000+05:30''"
    by (simp add: serialize_datetime_def)
  with b have p: "parse_datetime example_rest (PStr ''2016-03-14T17:24:55.250000+05:30'' :: (int, datetime) pyval)
      = Inr example_aware"
    by simp
  from t v have "parse_datetime example_rest (PStr (isoformat CHR '' '' example_aware) :: (int, datetime) pyval)
      = Inr example_aware"
    by blast
  then have q: "parse_datetime example_rest (PStr ''2016-03-14 17:24:55.250000+05:30'' :: (int, datetime) pyval)
      = Inr example_aware"
    unfolding w .
  from t f have e: "parse_datetime example_rest (PStr ''14 March 2016'' :: (int, datetime) pyval)
      = Inl (ValueError ''Invalid DateTime format. Expected ISO 8601 string.'')"
    by blast
  from v s p q f e show ?thesis by (intro conjI)
qed

lemma parse_fields_other_separator:
  "parse_fields ''2016-03-14X17:24:55'' = Some example_datetime"
  by (simp add: parse_fields_def digits_def digit_val_def fraction_def read_offset_def example_datetime_def)

lemma parse_fields_skewed:
  "parse_fields ''2016-03-14T17:24:55+00:00:00.000001'' = Some (example_skewed\<lparr>utcoffset := Some 0\<rparr>)"
  by (simp add: parse_fields_def digits_def digit_val_def fraction_def read_offset_def offset_fields_def
      example_skewed_def)

text \<open>
  A string with the letter X between the date and the time of day is not ISO-8601, and
  the value parser returns a datetime for it. A datetime whose UTC offset is one
  microsecond is written with that offset and read back as a UTC datetime.
\<close>

theorem datetime_scalar_counterexample:
  "parse_datetime example_rest (PStr ''2016-03-14X17:24:55'' :: (int, datetime) pyval)
     = Inr example_datetime
   \<and> valid_datetime example_skewed
   \<and> serialize_datetime (PDatetime example_skewed :: (int, datetime) pyval)
        = Inr ''2016-03-14T17:24:55+00:00:00.000001''
   \<and> parse_datetime example_rest (PStr ''2016-03-14T17:24:55+00:00:00.000001'' :: (int, datetime) pyval)
        = Inr (example_skewed\<lparr>utcoffset := Some 0\<rparr>)
   \<and> example_skewed\<lparr>utcoffset := Some 0\<rparr> \<noteq> example_skewed"
proof -
  have 1: "parse_datetime example_rest (PStr ''2016-03-14X17:24:55'' :: (int, datetime) pyval)
     = Inr example_datetime"
    by (simp add: parse_datetime_def fromisoformat_def parse_fields_other_separator
        valid_datetime_def example_datetime_def days_in_month_def)
  have 2: "valid_datetime example_skewed"
    by (simp add: valid_datetime_def example_skewed_def days_in_month_def)
  have 3: "serialize_datetime (PDatetime example_skewed :: (int, datetime) pyval)
        = Inr ''2016-03-14T17:24:55+00:00:00.000001''"
    by (simp add: serialize_datetime_def isoformat_def example_skewed_def format_offset_def
        offset_text_def zfill_4 zfill_2 zfill_6 digit_char_def char_of_def bit_0)
  have 4: "parse_datetime example_rest (PStr ''2016-03-14T17:24:55+00:00:00.000001'' :: (int, datetime) pyval)
        = Inr (example_skewed\<lparr>utcoffset := Some 0\<rparr>)"
    by (simp add: parse_datetime_def fromisoformat_def parse_fields_skewed
        valid_datetime_def example_skewed_def days_in_month_def)
  have 5: "example_skewed\<lparr>utcoffset := Some 0\<rparr> \<noteq> example_skewed"
    by (simp add: example_skewed_def)
  from 1 2 3 4 5 show ?thesis by (intro conjI)
qed

end
